theory Spec2Isabelle
  imports Main
begin

section \<open>Go values used by the SDK\<close>

text \<open>
  Go's \<open>int\<close> and \<open>time.Duration\<close> are modelled as \<open>int\<close>: the functions below only
  compare them with constants and store them, no arithmetic can overflow.
  \<open>time.Time\<close> is an instant in nanoseconds. A \<open>float64\<close> is kept as mantissa and
  exponent; the SDK never computes with the components of a vector, it only takes
  the length of the slice.
\<close>

datatype float64 = Float64 (mantissa: int) (exponent: int)

definition Millisecond :: int where
  "Millisecond = 1000000"

definition Second :: int where
  "Second = 1000000000"

text \<open>\<open>strconv.Itoa\<close> / the \<open>%d\<close> verb of \<open>fmt\<close>.\<close>

fun digits :: "nat \<Rightarrow> string" where
  "digits n = (if n < 10 then [char_of (48 + n)]
               else digits (n div 10) @ [char_of (48 + n mod 10)])"

declare digits.simps [simp del]

definition Itoa :: "int \<Rightarrow> string" where
  "Itoa i = (if i < 0 then CHR ''-'' # digits (nat (- i)) else digits (nat i))"

text \<open>
  \<open>strings.ToUpper\<close>. Strings are byte sequences (UTF-8). ASCII letters are mapped
  to upper case. Of the letters outside ASCII only U+017F (long s, bytes C5 BF) and
  U+0131 (dotless i, bytes C4 B1) have an ASCII upper case (S and I); they are mapped
  as Go maps them. Every other byte is kept: no other rune's upper case is an ASCII
  letter, so the comparison with the five verbs in \<open>makeRequest\<close> is decided as in Go.
\<close>

definition upper_byte :: "char \<Rightarrow> char" where
  "upper_byte c = (if 97 \<le> (of_char c :: nat) \<and> (of_char c :: nat) \<le> 122
                   then char_of ((of_char c :: nat) - 32) else c)"

fun ToUpper :: "string \<Rightarrow> string" where
  "ToUpper [] = []"
| "ToUpper [c] = [upper_byte c]"
| "ToUpper (c # d # cs) =
     (if (of_char c :: nat) = 197 \<and> (of_char d :: nat) = 191 then CHR ''S'' # ToUpper cs
      else if (of_char c :: nat) = 196 \<and> (of_char d :: nat) = 177 then CHR ''I'' # ToUpper cs
      else upper_byte c # ToUpper (d # cs))"

section \<open>errors.go: the typed errors\<close>

record APIError =
  StatusCode :: int
  Message :: string
  Code :: string
  Details :: "(string \<times> string) list"
  RequestID :: string
  Timestamp :: string

text \<open>The zero value of \<open>APIError\<close> (\<open>var apiError APIError\<close>).\<close>

definition zero_APIError :: APIError where
  "zero_APIError = \<lparr>StatusCode = 0, Message = [], Code = [], Details = [],
                     RequestID = [], Timestamp = []\<rparr>"

text \<open>
  \<open>VectorItem\<close> of zerodb.go. A \<open>map[string]interface{}\<close> is kept as an association
  list from keys to the JSON text of the values.
\<close>

record VectorItem =
  ID :: string
  Vector :: "float64 list"
  Metadata :: "(string \<times> string) list"

text \<open>The values stored in \<open>ValidationError.Value\<close> (an \<open>interface{}\<close>) by the methods below.\<close>

datatype go_value =
    VNil
  | VString string
  | VInt int
  | VStrings "string list"
  | VFloats "float64 list"
  | VItems "VectorItem list"

text \<open>
  A Go \<open>error\<close>. \<open>ErrorString\<close> is what \<open>fmt.Errorf\<close> returns for a format without
  \<open>%w\<close>, \<open>WrapError msg err\<close> what it returns with \<open>%w\<close>: the formatted message
  and the wrapped error. The other constructors are pointers to the four error structs
  of errors.go, with the fields in the order of the struct.
\<close>

datatype go_error =
    ErrorString string
  | WrapError string go_error
  | APIErrorPtr APIError
  | ValidationErrorPtr string string go_value
  | NetworkErrorPtr string "go_error option"
  | ConfigErrorPtr string string

fun Error :: "go_error \<Rightarrow> string" where
  "Error (ErrorString s) = s"
| "Error (WrapError s _) = s"
| "Error (APIErrorPtr e) =
     (if Code e \<noteq> []
      then ''AINative API error ['' @ Itoa (StatusCode e) @ '':'' @ Code e @ '']: '' @ Message e
      else ''AINative API error ['' @ Itoa (StatusCode e) @ '']: '' @ Message e)"
| "Error (ValidationErrorPtr field msg _) =
     ''validation error for field '' @ [CHR 0x27] @ field @ [CHR 0x27] @ '': '' @ msg"
| "Error (NetworkErrorPtr msg cause) =
     (case cause of
        Some c \<Rightarrow> ''network error: '' @ msg @ '' (caused by: '' @ Error c @ '')''
      | None \<Rightarrow> ''network error: '' @ msg)"
| "Error (ConfigErrorPtr field msg) =
     ''configuration error for field '' @ [CHR 0x27] @ field @ [CHR 0x27] @ '': '' @ msg"

text \<open>\<open>Unwrap\<close>: of \<open>fmt\<close>'s wrapper and of \<open>NetworkError\<close>; the other errors have none.\<close>

fun Unwrap :: "go_error \<Rightarrow> go_error option" where
  "Unwrap (WrapError _ err) = Some err"
| "Unwrap (NetworkErrorPtr _ cause) = cause"
| "Unwrap _ = None"

text \<open>\<open>fmt.Errorf(prefix + "%w", err)\<close>.\<close>

definition Errorf_w :: "string \<Rightarrow> go_error \<Rightarrow> go_error" where
  "Errorf_w prefix err = WrapError (prefix @ Error err) err"

text \<open>
  \<open>errors.As(err, &target)\<close> for a target of type \<open>*ConfigError\<close>, \<open>*NetworkError\<close>
  and \<open>*APIError\<close>: is there an error of that type on the \<open>Unwrap\<close> chain?
\<close>

fun As_ConfigError :: "go_error \<Rightarrow> bool" where
  "As_ConfigError (ConfigErrorPtr _ _) = True"
| "As_ConfigError (WrapError _ err) = As_ConfigError err"
| "As_ConfigError (NetworkErrorPtr _ cause) =
     (case cause of Some c \<Rightarrow> As_ConfigError c | None \<Rightarrow> False)"
| "As_ConfigError _ = False"

fun As_NetworkError :: "go_error \<Rightarrow> bool" where
  "As_NetworkError (NetworkErrorPtr _ _) = True"
| "As_NetworkError (WrapError _ err) = As_NetworkError err"
| "As_NetworkError _ = False"

fun As_ValidationError :: "go_error \<Rightarrow> bool" where
  "As_ValidationError (ValidationErrorPtr _ _ _) = True"
| "As_ValidationError (WrapError _ err) = As_ValidationError err"
| "As_ValidationError (NetworkErrorPtr _ cause) =
     (case cause of Some c \<Rightarrow> As_ValidationError c | None \<Rightarrow> False)"
| "As_ValidationError _ = False"

definition IsAuthenticationError :: "APIError \<Rightarrow> bool" where
  "IsAuthenticationError e = (StatusCode e = 401 \<or> StatusCode e = 403)"

definition IsRateLimitError :: "APIError \<Rightarrow> bool" where
  "IsRateLimitError e = (StatusCode e = 429)"

definition IsServerError :: "APIError \<Rightarrow> bool" where
  "IsServerError e = (StatusCode e \<ge> 500 \<and> StatusCode e < 600)"

definition IsClientError :: "APIError \<Rightarrow> bool" where
  "IsClientError e = (StatusCode e \<ge> 400 \<and> StatusCode e < 500)"

definition IsRetryable :: "APIError \<Rightarrow> bool" where
  "IsRetryable e = (IsServerError e \<or> IsRateLimitError e)"

definition NewValidationError :: "string \<Rightarrow> string \<Rightarrow> go_value \<Rightarrow> go_error" where
  "NewValidationError field message val = ValidationErrorPtr field message val"

definition NewNetworkError :: "string \<Rightarrow> go_error option \<Rightarrow> go_error" where
  "NewNetworkError message cause = NetworkErrorPtr message cause"

definition NewConfigError :: "string \<Rightarrow> string \<Rightarrow> go_error" where
  "NewConfigError field message = ConfigErrorPtr field message"

section \<open>client.go: configuration and construction\<close>

definition DefaultBaseURL :: string where
  "DefaultBaseURL = ''https://api.ainative.studio''"

definition DefaultTimeout :: int where
  "DefaultTimeout = 30 * Second"

definition DefaultMaxRetries :: int where
  "DefaultMaxRetries = 3"

definition DefaultRateLimit :: int where
  "DefaultRateLimit = 100"

definition UserAgent :: string where
  "UserAgent = ''AINative-Go-SDK/1.0.0''"

record RetryConfig =
  MaxRetries :: int
  InitialDelay :: int
  MaxDelay :: int
  BackoffMultiplier :: float64
  Jitter :: bool

text \<open>
  \<open>Config\<close>. The pointer fields are options (\<open>None\<close> is \<open>nil\<close>). \<open>HTTPClient\<close> holds
  the address of the caller's \<open>http.Client\<close>, \<open>Tracer\<close> the name of the tracer.
\<close>

record Config =
  APIKey :: string
  APISecret :: string
  BaseURL :: string
  OrganizationID :: string
  ProjectID :: string
  HTTPClient :: "nat option"
  Timeout :: int
  RetryConfig :: "RetryConfig option"
  RateLimit :: int
  Tracer :: "string option"
  Debug :: bool

text \<open>
  The \<open>http.Client\<close> under the resty client: the caller's (by address) or the pooled
  one that \<open>NewClient\<close> builds (Timeout, MaxIdleConns, MaxIdleConnsPerHost,
  IdleConnTimeout).
\<close>

datatype http_Client = CallerClient nat | PooledClient int int int int

text \<open>The settings of the \<open>resty.Client\<close> that \<open>NewClient\<close> writes.\<close>

record resty_Client =
  base :: http_Client
  r_BaseURL :: string
  r_Timeout :: int
  r_Header :: "(string \<times> string) list"
  RetryCount :: int
  RetryWaitTime :: int
  RetryMaxWaitTime :: int
  r_Debug :: bool

text \<open>
  An \<open>http.Header\<close> is kept as an association list. It is keyed by canonical names:
  the first letter and every letter after a hyphen in upper case, the rest in lower
  case.
\<close>

definition lower_byte :: "char \<Rightarrow> char" where
  "lower_byte c = (if 65 \<le> (of_char c :: nat) \<and> (of_char c :: nat) \<le> 90
                   then char_of ((of_char c :: nat) + 32) else c)"

fun canonical :: "bool \<Rightarrow> string \<Rightarrow> string" where
  "canonical up [] = []"
| "canonical up (c # cs) =
     (if up then upper_byte c else lower_byte c) # canonical (c = CHR ''-'') cs"

definition CanonicalMIMEHeaderKey :: "string \<Rightarrow> string" where
  "CanonicalMIMEHeaderKey k = canonical True k"

definition SetHeader :: "string \<Rightarrow> string \<Rightarrow> resty_Client \<Rightarrow> resty_Client" where
  "SetHeader k v c =
     c\<lparr>r_Header := filter (\<lambda>kv. fst kv \<noteq> CanonicalMIMEHeaderKey k) (r_Header c)
                       @ [(CanonicalMIMEHeaderKey k, v)]\<rparr>"

text \<open>
  Modelled from the spec: the token bucket of the rate limiter
  (\<open>golang.org/x/time/rate\<close>, not part of the repository). Capacity is the burst, the
  bucket starts full, and \<open>Wait\<close> either fails, consuming nothing, or consumes one
  token (after waiting for it, when none is left: the count goes below zero as the
  reservation is made). It fails with the context's error when the context is done,
  and before that, as in the library, when the burst is below the one token asked for.
  The refill by elapsed time is not modelled.
\<close>

record Limiter =
  limit :: int
  burst :: int
  tokens :: int

definition NewLimiter :: "int \<Rightarrow> int \<Rightarrow> Limiter" where
  "NewLimiter r b = \<lparr>limit = r, burst = b, tokens = b\<rparr>"

text \<open>A \<open>context.Context\<close> is what its \<open>Err()\<close> returns: \<open>None\<close> while it is live.\<close>

type_synonym Context = "go_error option"

definition Wait :: "Limiter \<Rightarrow> Context \<Rightarrow> go_error option \<times> Limiter" where
  "Wait l ctx =
     (if 1 > burst l
      then (Some (ErrorString (''rate: Wait(n=1) exceeds limiter'' @ [CHR 0x27] @ ''s burst ''
                                 @ Itoa (burst l))), l)
      else case ctx of
             Some e \<Rightarrow> (Some e, l)
           | None \<Rightarrow> (None, l\<lparr>tokens := tokens l - 1\<rparr>))"

text \<open>
  \<open>Client\<close>. The service fields (\<open>ZeroDB\<close>, \<open>Auth\<close>, ...) only point back to the
  client and are left out; the services are functions of the client below.
\<close>

record Client =
  httpClient :: resty_Client
  config :: Config
  rateLimiter :: Limiter
  tracer :: string

text \<open>
  \<open>NewClient\<close>. \<open>url_Parse\<close> is \<open>url.Parse\<close> of the standard library, reduced to
  the error it returns. The caller passes a pointer to its \<open>Config\<close>; the second
  component of the result is that struct after the call, the first is the pair
  \<open>(*Client, error)\<close> as a sum. The client keeps the same pointer, so its \<open>config\<close>
  is the caller's struct.
\<close>

definition set_defaults :: "Config \<Rightarrow> Config" where
  "set_defaults c0 =
     (let c1 = (if BaseURL c0 = [] then c0\<lparr>BaseURL := DefaultBaseURL\<rparr> else c0);
          c2 = (if Timeout c1 = 0 then c1\<lparr>Timeout := DefaultTimeout\<rparr> else c1);
          c3 = (if RateLimit c2 = 0 then c2\<lparr>RateLimit := DefaultRateLimit\<rparr> else c2)
      in c3)"

definition configure_http :: "Config \<Rightarrow> resty_Client" where
  "configure_http c =
     (let baseHTTPClient =
            (case HTTPClient c of
               Some a \<Rightarrow> CallerClient a
             | None \<Rightarrow> PooledClient (Timeout c) 100 10 (90 * Second));
          h0 = \<lparr>base = baseHTTPClient, r_BaseURL = [], r_Timeout = 0, r_Header = [],
                RetryCount = 0, RetryWaitTime = 0, RetryMaxWaitTime = 0, r_Debug = False\<rparr>;
          h1 = SetHeader ''Accept'' ''application/json''
                 (SetHeader ''Content-Type'' ''application/json''
                   (SetHeader ''User-Agent'' UserAgent
                     (h0\<lparr>r_BaseURL := BaseURL c, r_Timeout := Timeout c\<rparr>)));
          h2 = (if APISecret c \<noteq> []
                then SetHeader ''Authorization'' (''Bearer '' @ APIKey c @ '':'' @ APISecret c) h1
                else SetHeader ''Authorization'' (''Bearer '' @ APIKey c) h1);
          h3 = (if OrganizationID c \<noteq> []
                then SetHeader ''X-Organization-ID'' (OrganizationID c) h2 else h2);
          retryConfig =
            (case RetryConfig c of
               Some rc \<Rightarrow> rc
             | None \<Rightarrow> \<lparr>MaxRetries = DefaultMaxRetries, InitialDelay = 100 * Millisecond,
                        MaxDelay = 10 * Second, BackoffMultiplier = Float64 1 1,
                        Jitter = True\<rparr>);
          h4 = h3\<lparr>RetryCount := MaxRetries retryConfig,
                  RetryWaitTime := InitialDelay retryConfig,
                  RetryMaxWaitTime := MaxDelay retryConfig\<rparr>
      in if Debug c then h4\<lparr>r_Debug := True\<rparr> else h4)"

definition NewClient ::
  "(string \<Rightarrow> go_error option) \<Rightarrow> Config option \<Rightarrow> (go_error + Client) \<times> Config option" where
  "NewClient url_Parse cfg =
     (case cfg of
        None \<Rightarrow> (Inl (ErrorString ''config cannot be nil''), None)
      | Some c0 \<Rightarrow>
          if APIKey c0 = [] then (Inl (ErrorString ''API key is required''), Some c0)
          else
            let c = set_defaults c0 in
            (case url_Parse (BaseURL c) of
               Some err \<Rightarrow> (Inl (Errorf_w ''invalid base URL: '' err), Some c)
             | None \<Rightarrow>
                 (Inr \<lparr>httpClient = configure_http c,
                       config = c,
                       rateLimiter = NewLimiter (RateLimit c) (RateLimit c),
                       tracer = (case Tracer c of Some t \<Rightarrow> t | None \<Rightarrow> ''ainative-go-sdk'')\<rparr>,
                  Some c)))"

section \<open>client.go: the dispatcher\<close>

text \<open>
  The body of a response as the JSON decoder reads it into a \<open>*APIError\<close>: for each
  field, the value the decoder writes, or \<open>None\<close> when it leaves the field of the
  target as it is (the key is absent or \<open>null\<close>, or its value has the wrong type; in
  the last case the decoder reports an error and still writes the other fields).
\<close>

record ErrorBody =
  body_status_code :: "int option"
  body_message :: "string option"
  body_code :: "string option"
  body_details :: "(string \<times> string) list option"
  body_request_id :: "string option"
  body_timestamp :: "string option"

text \<open>
  \<open>json.Unmarshal\<close> of such a body into an \<open>APIError\<close> that already has a content:
  the fields that the body gives are overwritten (the entries of \<open>details\<close> are added
  to the map), the others are kept. \<open>None\<close> is a body that is not JSON at all, which
  writes nothing.
\<close>

definition Unmarshal :: "ErrorBody option \<Rightarrow> APIError \<Rightarrow> APIError" where
  "Unmarshal body e =
     (case body of
        None \<Rightarrow> e
      | Some b \<Rightarrow>
          \<lparr>StatusCode = (case body_status_code b of Some v \<Rightarrow> v | None \<Rightarrow> StatusCode e),
           Message = (case body_message b of Some v \<Rightarrow> v | None \<Rightarrow> Message e),
           Code = (case body_code b of Some v \<Rightarrow> v | None \<Rightarrow> Code e),
           Details = (case body_details b of Some v \<Rightarrow> v @ Details e | None \<Rightarrow> Details e),
           RequestID = (case body_request_id b of Some v \<Rightarrow> v | None \<Rightarrow> RequestID e),
           Timestamp = (case body_timestamp b of Some v \<Rightarrow> v | None \<Rightarrow> Timestamp e)\<rparr>)"

text \<open>
  What one HTTP attempt gives back to resty. \<open>Failed\<close>: an error and no response (a
  transport failure). \<open>Responded\<close>: a response and no error. \<open>Undecoded\<close>: a response
  whose body resty could not decode into the result sink; the send then returns the
  response together with the decoder's error. A response is its status code, its
  headers, and its body as the JSON decoder reads it: into the caller's result type
  (\<open>None\<close> when there is nothing to decode) and into \<open>APIError\<close>.
\<close>

record 'r Response =
  resp_StatusCode :: int
  resp_Header :: "(string \<times> string) list"
  resp_Result :: "'r option"
  resp_Error :: "ErrorBody option"

datatype 'r outcome =
    Failed go_error
  | Responded "'r Response"
  | Undecoded "'r Response" go_error

text \<open>
  \<open>Header.Get\<close> looks the canonical form of its argument up; a missing header reads
  as the empty string.
\<close>

definition header_Get :: "(string \<times> string) list \<Rightarrow> string \<Rightarrow> string" where
  "header_Get h k = (case map_of h (CanonicalMIMEHeaderKey k) of Some v \<Rightarrow> v | None \<Rightarrow> [])"

text \<open>
  The retry condition that \<open>NewClient\<close> adds to the resty client (it captures nothing):
  \<open>True\<close> whenever the attempt returned an error, otherwise by the status code.
\<close>

definition retryCondition :: "'r outcome \<Rightarrow> bool" where
  "retryCondition out =
     (case out of
        Failed err \<Rightarrow> True
      | Undecoded r err \<Rightarrow> True
      | Responded r \<Rightarrow> resp_StatusCode r \<ge> 500 \<or> resp_StatusCode r = 429)"

text \<open>
  Modelled from the spec: the attempt loop of the HTTP library (resty, not part of the
  repository), which \<open>NewClient\<close> configures with \<open>SetRetryCount\<close> and the retry
  condition. Attempts are numbered from 0; after attempt \<open>i\<close> another one is made when
  the condition holds for its outcome and \<open>i\<close> is below the retry count.
  \<open>Backoff k i env\<close> runs the loop from attempt \<open>i\<close> with \<open>k\<close> retries left, where
  \<open>env j\<close> is the outcome of attempt \<open>j\<close>; it returns the last outcome and the
  number of attempts made. The delays between attempts are not modelled, and a
  negative retry count is read as 0.
\<close>

fun Backoff :: "nat \<Rightarrow> nat \<Rightarrow> (nat \<Rightarrow> 'r outcome) \<Rightarrow> 'r outcome \<times> nat" where
  "Backoff 0 i env = (env i, Suc i)"
| "Backoff (Suc k) i env =
     (if retryCondition (env i) then Backoff k (Suc i) env else (env i, Suc i))"

text \<open>The \<open>switch\<close> of \<open>makeRequest\<close>: the verb of the resty call it selects, if any.\<close>

definition method_switch :: "string \<Rightarrow> string option" where
  "method_switch method =
     (let m = ToUpper method in
      if m = ''GET'' then Some ''GET''
      else if m = ''POST'' then Some ''POST''
      else if m = ''PUT'' then Some ''PUT''
      else if m = ''DELETE'' then Some ''DELETE''
      else if m = ''PATCH'' then Some ''PATCH''
      else None)"

text \<open>
  The result of a call of \<open>makeRequest\<close>: the error it returns, the content of the
  result sink afterwards (\<open>None\<close> when the caller passed \<open>nil\<close>), the rate limiter
  afterwards, and the requests put on the wire (verb, path, body), one per attempt.
\<close>

record ('b, 'r) call =
  call_err :: "go_error option"
  call_result :: "'r option"
  call_limiter :: Limiter
  call_sent :: "(string \<times> string \<times> 'b option) list"

text \<open>
  \<open>makeRequest\<close> declares one \<open>apiError\<close> for the call and hands its address to
  resty (\<open>SetError\<close>) before the send, which resty repeats for every attempt. After
  each attempt that brings a response with a status above 399, resty decodes the body
  into that same struct, and nothing clears it in between.
  \<open>decode_errors env n\<close> is \<open>apiError\<close> after the first \<open>n\<close> attempts.
\<close>

fun decode_errors :: "(nat \<Rightarrow> 'r outcome) \<Rightarrow> nat \<Rightarrow> APIError" where
  "decode_errors env 0 = zero_APIError"
| "decode_errors env (Suc j) =
     (case env j of
        Responded resp \<Rightarrow>
          if resp_StatusCode resp > 399
          then Unmarshal (resp_Error resp) (decode_errors env j)
          else decode_errors env j
      | _ \<Rightarrow> decode_errors env j)"

text \<open>
  \<open>handle_response\<close> is the part of \<open>makeRequest\<close> after the send returned a
  response and no error; \<open>apiError\<close> is the struct as the attempts left it.
\<close>

definition handle_response :: "APIError \<Rightarrow> 'r Response \<Rightarrow> go_error option" where
  "handle_response apiError resp =
     (if resp_StatusCode resp \<ge> 400 then
        (if Message apiError \<noteq> []
         then Some (APIErrorPtr (apiError\<lparr>StatusCode := resp_StatusCode resp\<rparr>))
         else Some (APIErrorPtr
                \<lparr>StatusCode = resp_StatusCode resp,
                 Message = ''API request failed with status '' @ Itoa (resp_StatusCode resp),
                 Code = [], Details = [],
                 RequestID = header_Get (resp_Header resp) ''X-Request-ID'',
                 Timestamp = []\<rparr>))
      else None)"

text \<open>
  \<open>makeRequest\<close>. \<open>result\<close> is the content of the result sink before the call
  (\<open>None\<close> for \<open>nil\<close>); resty writes the decoded body into it for a status from 200
  to 299, and the sink is taken as unchanged when the send returns an error. \<open>env\<close>
  gives the outcome of each attempt. The tracing span is not modelled.
\<close>

definition makeRequest ::
  "Client \<Rightarrow> Context \<Rightarrow> string \<Rightarrow> string \<Rightarrow> 'b option \<Rightarrow> 'r option \<Rightarrow> (nat \<Rightarrow> 'r outcome)
   \<Rightarrow> ('b, 'r) call" where
  "makeRequest c ctx method path body result env =
     (case Wait (rateLimiter c) ctx of
        (Some err, l) \<Rightarrow>
          \<lparr>call_err = Some (Errorf_w ''rate limit wait failed: '' err),
           call_result = result, call_limiter = l, call_sent = []\<rparr>
      | (None, l) \<Rightarrow>
          (case method_switch method of
             None \<Rightarrow>
               \<lparr>call_err = Some (ErrorString (''unsupported HTTP method: '' @ method)),
                call_result = result, call_limiter = l, call_sent = []\<rparr>
           | Some verb \<Rightarrow>
               (case Backoff (nat (RetryCount (httpClient c))) 0 env of
                  (out, n) \<Rightarrow>
                    (case out of
                       Failed err \<Rightarrow>
                         \<lparr>call_err = Some (Errorf_w ''request failed: '' err),
                          call_result = result, call_limiter = l,
                          call_sent = replicate n (verb, path, body)\<rparr>
                     | Undecoded resp err \<Rightarrow>
                         \<lparr>call_err = Some (Errorf_w ''request failed: '' err),
                          call_result = result, call_limiter = l,
                          call_sent = replicate n (verb, path, body)\<rparr>
                     | Responded resp \<Rightarrow>
                         \<lparr>call_err = handle_response (decode_errors env n) resp,
                          call_result =
                            (case result of
                               None \<Rightarrow> None
                             | Some z \<Rightarrow>
                                 if 200 \<le> resp_StatusCode resp \<and> resp_StatusCode resp \<le> 299
                                 then (case resp_Result resp of Some v \<Rightarrow> Some v | None \<Rightarrow> Some z)
                                 else Some z),
                          call_limiter = l,
                          call_sent = replicate n (verb, path, body)\<rparr>))))"

section \<open>Service methods\<close>

text \<open>
  What a service method leaves behind: the pair \<open>(result, error)\<close> it returns, the rate
  limiter of the client afterwards, and the requests put on the wire. For a method
  that writes into the request struct of its caller, \<open>req_after\<close> is that struct after
  the call (\<open>None\<close> when the caller passed \<open>nil\<close>).
\<close>

record ('b, 'r) ret =
  ret_result :: "'r option"
  ret_err :: "go_error option"
  ret_limiter :: Limiter
  ret_sent :: "(string \<times> string \<times> 'b option) list"

record ('b, 'r) ret_req = "('b, 'r) ret" +
  req_after :: "'b option"

definition with_req :: "('b, 'r) ret \<Rightarrow> 'b option \<Rightarrow> ('b, 'r) ret_req" where
  "with_req r q = ret.extend r (ret_req.fields q)"

text \<open>The tail shared by the methods: \<open>if err != nil { return nil, err }; return &result, nil\<close>.\<close>

definition return_call :: "('b, 'r) call \<Rightarrow> ('b, 'r) ret" where
  "return_call r =
     (if call_err r \<noteq> None
      then \<lparr>ret_result = None, ret_err = call_err r,
            ret_limiter = call_limiter r, ret_sent = call_sent r\<rparr>
      else \<lparr>ret_result = call_result r, ret_err = None,
            ret_limiter = call_limiter r, ret_sent = call_sent r\<rparr>)"

text \<open>A return before the dispatcher is called: \<open>return nil, NewValidationError(...)\<close>.\<close>

definition return_invalid :: "Client \<Rightarrow> go_error \<Rightarrow> ('b, 'r) ret" where
  "return_invalid c err =
     \<lparr>ret_result = None, ret_err = Some err, ret_limiter = rateLimiter c, ret_sent = []\<rparr>"

subsection \<open>client.go: Health\<close>

record HealthResponse =
  Status :: string
  Version :: string
  Timestamp :: int
  Services :: "(string \<times> string) list"

definition zero_HealthResponse :: HealthResponse where
  "zero_HealthResponse = \<lparr>Status = [], Version = [], Timestamp = 0, Services = []\<rparr>"


subsection \<open>zerodb.go: projects\<close>

record ProjectOwner =
  UserID :: string
  Email :: string
  Organization :: string

record ProjectStats =
  VectorCount :: int
  MemoryCount :: int
  StorageSize :: int
  LastAccess :: "int option"

record Project =
  ID :: string
  Name :: string
  Description :: string
  Status :: string
  Metadata :: "(string \<times> string) list"
  CreatedAt :: int
  UpdatedAt :: int
  Owner :: "ProjectOwner option"
  Stats :: "ProjectStats option"

definition zero_Project :: Project where
  "zero_Project = \<lparr>Project.ID = [], Name = [], Description = [], Project.Status = [],
                    Project.Metadata = [], CreatedAt = 0, UpdatedAt = 0, Owner = None,
                    Stats = None\<rparr>"

definition ProjectsService_Get ::
  "Client \<Rightarrow> Context \<Rightarrow> string \<Rightarrow> (nat \<Rightarrow> Project outcome) \<Rightarrow> (unit, Project) ret" where
  "ProjectsService_Get c ctx projectID env =
     (if projectID = []
      then return_invalid c
             (NewValidationError ''project_id'' ''project ID is required'' (VString projectID))
      else
        let path = ''/api/v1/zerodb/projects/'' @ projectID
        in return_call (makeRequest c ctx ''GET'' path None (Some zero_Project) env))"

subsection \<open>zerodb.go: vectors\<close>

record VectorSearchRequest =
  Vector :: "float64 list"
  TopK :: int
  Namespace :: string
  Filter :: "(string \<times> string) list"
  IncludeMetadata :: bool
  IncludeValues :: bool

record VectorSearchMatch =
  ID :: string
  Score :: float64
  Vector :: "float64 list"
  Metadata :: "(string \<times> string) list"

record VectorSearchResponse =
  Matches :: "VectorSearchMatch list"
  Namespace :: string

record UpsertVectorsRequest =
  Vectors :: "VectorItem list"
  Namespace :: string

record UpsertVectorsResponse =
  UpsertedCount :: int
  Namespace :: string

definition zero_VectorSearchResponse :: VectorSearchResponse where
  "zero_VectorSearchResponse = \<lparr>Matches = [], VectorSearchResponse.Namespace = []\<rparr>"

definition zero_UpsertVectorsResponse :: UpsertVectorsResponse where
  "zero_UpsertVectorsResponse = \<lparr>UpsertedCount = 0, UpsertVectorsResponse.Namespace = []\<rparr>"

definition VectorsService_Search ::
  "Client \<Rightarrow> Context \<Rightarrow> string \<Rightarrow> VectorSearchRequest option
   \<Rightarrow> (nat \<Rightarrow> VectorSearchResponse outcome)
   \<Rightarrow> (VectorSearchRequest, VectorSearchResponse) ret_req" where
  "VectorsService_Search c ctx projectID req env =
     (if projectID = []
      then with_req
             (return_invalid c
               (NewValidationError ''project_id'' ''project ID is required'' (VString projectID)))
             req
      else case req of
        None \<Rightarrow>
          with_req
            (return_invalid c (NewValidationError ''request'' ''request cannot be nil'' VNil))
            req
      | Some r0 \<Rightarrow>
          if length (VectorSearchRequest.Vector r0) = 0
          then with_req
                 (return_invalid c
                   (NewValidationError ''vector'' ''vector cannot be empty''
                      (VFloats (VectorSearchRequest.Vector r0))))
                 req
          else
            let r1 = (if TopK r0 \<le> 0 then r0\<lparr>TopK := 5\<rparr> else r0);
                path = ''/api/v1/zerodb/projects/'' @ projectID @ ''/vectors/search''
            in with_req
                 (return_call
                    (makeRequest c ctx ''POST'' path (Some r1) (Some zero_VectorSearchResponse) env))
                 (Some r1))"

definition VectorsService_Upsert ::
  "Client \<Rightarrow> Context \<Rightarrow> string \<Rightarrow> UpsertVectorsRequest option
   \<Rightarrow> (nat \<Rightarrow> UpsertVectorsResponse outcome)
   \<Rightarrow> (UpsertVectorsRequest, UpsertVectorsResponse) ret" where
  "VectorsService_Upsert c ctx projectID req env =
     (if projectID = []
      then return_invalid c
             (NewValidationError ''project_id'' ''project ID is required'' (VString projectID))
      else case req of
        None \<Rightarrow> return_invalid c (NewValidationError ''request'' ''request cannot be nil'' VNil)
      | Some r0 \<Rightarrow>
          if length (Vectors r0) = 0
          then return_invalid c
                 (NewValidationError ''vectors'' ''vectors cannot be empty'' (VItems (Vectors r0)))
          else
            let path = ''/api/v1/zerodb/projects/'' @ projectID @ ''/vectors''
            in return_call
                 (makeRequest c ctx ''POST'' path (Some r0) (Some zero_UpsertVectorsResponse) env))"

subsection \<open>zerodb.go: memory\<close>

record MemoryItem =
  ID :: string
  Content :: string
  Title :: string
  Tags :: "string list"
  Priority :: string
  Metadata :: "(string \<times> string) list"
  CreatedAt :: int
  UpdatedAt :: int

record SearchMemoryRequest =
  Query :: string
  Limit :: int
  Tags :: "string list"
  Priority :: string
  Semantic :: bool

record SearchMemoryResponse =
  Results :: "MemoryItem list"
  Total :: int

definition zero_SearchMemoryResponse :: SearchMemoryResponse where
  "zero_SearchMemoryResponse = \<lparr>Results = [], Total = 0\<rparr>"

definition MemoryService_Search ::
  "Client \<Rightarrow> Context \<Rightarrow> SearchMemoryRequest option
   \<Rightarrow> (nat \<Rightarrow> SearchMemoryResponse outcome)
   \<Rightarrow> (SearchMemoryRequest, SearchMemoryResponse) ret_req" where
  "MemoryService_Search c ctx req env =
     (case req of
        None \<Rightarrow>
          with_req
            (return_invalid c (NewValidationError ''request'' ''request cannot be nil'' VNil))
            req
      | Some r0 \<Rightarrow>
          if Query r0 = []
          then with_req
                 (return_invalid c
                   (NewValidationError ''query'' ''query is required'' (VString (Query r0))))
                 req
          else
            let r1 = (if Limit r0 = 0 then r0\<lparr>Limit := 10\<rparr> else r0)
            in with_req
                 (return_call
                    (makeRequest c ctx ''POST'' ''/api/v1/memory/search'' (Some r1)
                       (Some zero_SearchMemoryResponse) env))
                 (Some r1))"

subsection \<open>embeddings.go: Generate\<close>

record GenerateRequest =
  Texts :: "string list"
  Model :: string
  Normalize :: bool

record GenerateResponse =
  Embeddings :: "float64 list list"
  Model :: string
  Dimensions :: int
  Count :: int
  ProcessingTimeMs :: float64
  CostUSD :: float64

definition zero_GenerateResponse :: GenerateResponse where
  "zero_GenerateResponse =
     \<lparr>Embeddings = [], GenerateResponse.Model = [], Dimensions = 0, Count = 0,
      ProcessingTimeMs = Float64 0 0, CostUSD = Float64 0 0\<rparr>"

definition EmbeddingsService_Generate ::
  "Client \<Rightarrow> Context \<Rightarrow> string list \<Rightarrow> string \<Rightarrow> bool \<Rightarrow> (nat \<Rightarrow> GenerateResponse outcome)
   \<Rightarrow> (GenerateRequest, GenerateResponse) ret" where
  "EmbeddingsService_Generate c ctx texts model normalize_arg env =
     (if length texts = 0
      then return_invalid c
             (NewValidationError ''texts'' ''texts list cannot be empty'' (VStrings texts))
      else if length texts > 100
      then return_invalid c
             (NewValidationError ''texts'' ''maximum 100 texts per request''
                (VInt (int (length texts))))
      else
        let model1 = (if model = [] then ''BAAI/bge-small-en-v1.5'' else model);
            req = \<lparr>Texts = texts, GenerateRequest.Model = model1, Normalize = normalize_arg\<rparr>
        in return_call
             (makeRequest c ctx ''POST'' ''/api/v1/embeddings/generate'' (Some req)
                (Some zero_GenerateResponse) env))"

section \<open>auth.go\<close>

record LoginRequest =
  Username :: string
  Password :: string

record TokenResponse =
  AccessToken :: string
  TokenType :: string
  ExpiresIn :: int
  RefreshToken :: string
  Scope :: string
  IssuedAt :: int
  ExpiresAt :: int

definition zero_TokenResponse :: TokenResponse where
  "zero_TokenResponse = \<lparr>AccessToken = [], TokenType = [], ExpiresIn = 0, RefreshToken = [],
                          Scope = [], IssuedAt = 0, ExpiresAt = 0\<rparr>"

text \<open>
  \<open>time.Duration(n) * time.Second\<close> is a product of 64-bit signed integers and wraps
  around. \<open>Time.Add\<close> is the sum of the instant and the duration.
\<close>

definition int64 :: "int \<Rightarrow> int" where
  "int64 x = (x + 2 ^ 63) mod 2 ^ 64 - 2 ^ 63"

definition AuthService_Login ::
  "Client \<Rightarrow> Context \<Rightarrow> LoginRequest option \<Rightarrow> (nat \<Rightarrow> TokenResponse outcome)
   \<Rightarrow> (LoginRequest, TokenResponse) ret" where
  "AuthService_Login c ctx req env =
     (case req of
        None \<Rightarrow> return_invalid c (NewValidationError ''request'' ''request cannot be nil'' VNil)
      | Some r0 \<Rightarrow>
          if Username r0 = []
          then return_invalid c
                 (NewValidationError ''username'' ''username is required'' (VString (Username r0)))
          else if Password r0 = []
          then return_invalid c
                 (NewValidationError ''password'' ''password is required'' (VString []))
          else
            let r = makeRequest c ctx ''POST'' ''/api/v1/auth/login'' (Some r0)
                      (Some zero_TokenResponse) env
            in if call_err r \<noteq> None
               then \<lparr>ret_result = None, ret_err = call_err r,
                     ret_limiter = call_limiter r, ret_sent = call_sent r\<rparr>
               else \<lparr>ret_result =
                       map_option
                         (\<lambda>t. t\<lparr>ExpiresAt := IssuedAt t + int64 (int64 (ExpiresIn t) * Second)\<rparr>)
                         (call_result r),
                     ret_err = None,
                     ret_limiter = call_limiter r, ret_sent = call_sent r\<rparr>)"

text \<open>
  \<open>ListAPIKeys\<close> returns a slice. Here the difference between a \<open>nil\<close> slice and an
  empty one matters, so the slice is an optional list (\<open>None\<close> is \<open>nil\<close>).
  \<open>ListAPIKeys_result\<close> is the anonymous struct the method decodes into.
\<close>

record APIKeyInfo =
  ID :: string
  Name :: string
  Prefix :: string
  IsActive :: bool
  CreatedAt :: int
  LastUsedAt :: "int option"
  UsageCount :: int
  Permissions :: "string list"
  Metadata :: "(string \<times> string) list"



subsection \<open>Token inspection\<close>

text \<open>
  \<open>jwt.RegisteredClaims\<close> and \<open>TokenClaims\<close>, which embeds it. A \<open>*jwt.NumericDate\<close>
  is an optional instant.
\<close>

record RegisteredClaims =
  Issuer :: string
  Subject :: string
  Audience :: "string list"
  ExpiresAt :: "int option"
  NotBefore :: "int option"
  IssuedAt :: "int option"
  ID :: string

record TokenClaims = RegisteredClaims +
  UserID :: string
  Email :: string
  Organization :: string
  Role :: string
  Permissions :: "string list"

text \<open>
  The \<open>Claims\<close> of the token that the parser returns: the \<open>*TokenClaims\<close> handed to
  it, or a value of another type, for which the type assertion in \<open>ParseToken\<close> fails.
\<close>

datatype Claims = TokenClaimsPtr TokenClaims | OtherClaims

text \<open>
  \<open>ParseToken\<close>. \<open>ParseUnverified\<close> is the parser of the JWT library, reduced to
  the claims of the token or the error it returns.
\<close>

definition ParseToken ::
  "(string \<Rightarrow> go_error + Claims) \<Rightarrow> string \<Rightarrow> go_error + TokenClaims" where
  "ParseToken ParseUnverified tokenString =
     (case ParseUnverified tokenString of
        Inl err \<Rightarrow> Inl (Errorf_w ''failed to parse token: '' err)
      | Inr (TokenClaimsPtr claims) \<Rightarrow> Inr claims
      | Inr OtherClaims \<Rightarrow> Inl (ErrorString ''invalid token claims''))"

text \<open>\<open>IsTokenExpired\<close>; \<open>now\<close> is \<open>time.Now()\<close>.\<close>

definition IsTokenExpired ::
  "(string \<Rightarrow> go_error + Claims) \<Rightarrow> int \<Rightarrow> string \<Rightarrow> bool \<times> go_error option" where
  "IsTokenExpired ParseUnverified now tokenString =
     (case ParseToken ParseUnverified tokenString of
        Inl err \<Rightarrow> (True, Some err)
      | Inr claims \<Rightarrow>
          (case RegisteredClaims.ExpiresAt claims of
             None \<Rightarrow> (False, None)
           | Some t \<Rightarrow> (t < now, None)))"

definition GetTokenExpirationTime ::
  "(string \<Rightarrow> go_error + Claims) \<Rightarrow> string \<Rightarrow> int option \<times> go_error option" where
  "GetTokenExpirationTime ParseUnverified tokenString =
     (case ParseToken ParseUnverified tokenString of
        Inl err \<Rightarrow> (None, Some err)
      | Inr claims \<Rightarrow>
          (case RegisteredClaims.ExpiresAt claims of
             None \<Rightarrow> (None, None)
           | Some t \<Rightarrow> (Some t, None)))"

section \<open>Example inputs\<close>

text \<open>The minimal configuration of the tests, and the client built from it.\<close>

definition example_Config :: Config where
  "example_Config =
     \<lparr>APIKey = ''test-key'', APISecret = [], BaseURL = [], OrganizationID = [],
      ProjectID = [], HTTPClient = None, Timeout = 0, RetryConfig = None, RateLimit = 0,
      Tracer = None, Debug = False\<rparr>"

definition example_Client :: Client where
  "example_Client =
     \<lparr>httpClient = configure_http (set_defaults example_Config),
      config = set_defaults example_Config,
      rateLimiter = NewLimiter 100 100,
      tracer = ''ainative-go-sdk''\<rparr>"

text \<open>A URL parser that rejects the malformed base URL of the tests and nothing else.\<close>

definition example_url_Parse :: "string \<Rightarrow> go_error option" where
  "example_url_Parse u =
     (if u = ''://invalid-url-scheme'' then Some (ErrorString ''missing protocol scheme'')
      else None)"

text \<open>A server that answers every attempt in the same way.\<close>

definition always :: "'r outcome \<Rightarrow> nat \<Rightarrow> 'r outcome" where
  "always out i = out"

definition respond :: "int \<Rightarrow> (string \<times> string) list \<Rightarrow> ErrorBody option \<Rightarrow> 'r Response" where
  "respond code hdr body =
     \<lparr>resp_StatusCode = code, resp_Header = hdr, resp_Result = None, resp_Error = body\<rparr>"



text \<open>A token parser: one token without expiry, one that expires at instant 1000, the rest malformed.\<close>

definition example_claims :: "int option \<Rightarrow> TokenClaims" where
  "example_claims exp =
     \<lparr>Issuer = [], Subject = [], Audience = [], RegisteredClaims.ExpiresAt = exp,
      NotBefore = None, RegisteredClaims.IssuedAt = None, RegisteredClaims.ID = [],
      TokenClaims.UserID = ''user_123'', TokenClaims.Email = ''test@example.com'',
      TokenClaims.Organization = [], Role = ''user'', Permissions = []\<rparr>"

definition example_ParseUnverified :: "string \<Rightarrow> go_error + Claims" where
  "example_ParseUnverified t =
     (if t = ''h.noexp.s'' then Inr (TokenClaimsPtr (example_claims None))
      else if t = ''h.exp1000.s'' then Inr (TokenClaimsPtr (example_claims (Some 1000)))
      else Inl (ErrorString ''token is malformed''))"

text \<open>Requests for the methods of zerodb.go and auth.go.\<close>

definition example_Upsert :: UpsertVectorsRequest where
  "example_Upsert = \<lparr>Vectors = [], UpsertVectorsRequest.Namespace = ''default''\<rparr>"

definition example_Login :: LoginRequest where
  "example_Login = \<lparr>Username = ''user'', Password = []\<rparr>"

definition example_MemorySearch :: SearchMemoryRequest where
  "example_MemorySearch =
     \<lparr>Query = ''deploy notes'', Limit = 0, SearchMemoryRequest.Tags = [],
      SearchMemoryRequest.Priority = [], Semantic = True\<rparr>"

definition example_VectorSearch :: VectorSearchRequest where
  "example_VectorSearch =
     \<lparr>VectorSearchRequest.Vector = [Float64 1 0, Float64 3 (-1)], TopK = - 1,
      VectorSearchRequest.Namespace = [], Filter = [], IncludeMetadata = False,
      IncludeValues = False\<rparr>"

section \<open>Predicates of the statements\<close>

text \<open>
  A method returned before it called the dispatcher: the error is a
  \<open>*ValidationError\<close>, the result is \<open>nil\<close>, nothing was put on the wire and the rate
  limiter is the one of the client before the call.
\<close>

definition is_ValidationError :: "go_error option \<Rightarrow> bool" where
  "is_ValidationError err =
     (case err of Some (ValidationErrorPtr _ _ _) \<Rightarrow> True | _ \<Rightarrow> False)"

definition untouched :: "Client \<Rightarrow> ('b, 'r, 'z) ret_scheme \<Rightarrow> bool" where
  "untouched c r =
     (is_ValidationError (ret_err r) \<and> ret_result r = None \<and> ret_sent r = []
      \<and> ret_limiter r = rateLimiter c)"


section \<open>Auxiliary facts\<close>

lemma NewClient_example:
  "NewClient example_url_Parse (Some example_Config) = (Inr example_Client, Some (set_defaults example_Config))"
  by (simp add: NewClient_def example_Client_def example_Config_def set_defaults_def example_url_Parse_def DefaultBaseURL_def DefaultTimeout_def DefaultRateLimit_def Let_def NewLimiter_def)

lemma example_Client_burst: "1 \<le> burst (rateLimiter example_Client)"
  by (simp add: example_Client_def NewLimiter_def)

lemma example_Client_retries: "nat (RetryCount (httpClient example_Client)) = Suc (Suc (Suc 0))"
  by (simp add: example_Client_def configure_http_def Let_def example_Config_def
        set_defaults_def DefaultMaxRetries_def SetHeader_def)

lemma method_switch_supported:
  "ToUpper method \<in> {''GET'', ''POST'', ''PUT'', ''PATCH'', ''DELETE''} \<Longrightarrow>
   method_switch method = Some (ToUpper method)"
  by (auto simp add: method_switch_def Let_def)

lemma Backoff_last:
  "fst (Backoff k s env) = env (snd (Backoff k s env) - 1)"
  by (induction k arbitrary: s) simp_all

lemma Backoff_first:
  "\<not> retryCondition (env i) \<Longrightarrow> Backoff k i env = (env i, Suc i)"
  by (cases k) simp_all

lemma Wait_live:
  "1 \<le> burst l \<Longrightarrow> Wait l None = (None, l\<lparr>tokens := tokens l - 1\<rparr>)"
  by (simp add: Wait_def)

lemma makeRequest_live:
  "1 \<le> burst (rateLimiter c) \<Longrightarrow> method_switch method = Some verb \<Longrightarrow>
   makeRequest c None method path body result env =
     (case Backoff (nat (RetryCount (httpClient c))) 0 env of
        (out, n) \<Rightarrow>
          (case out of
             Failed err \<Rightarrow>
               \<lparr>call_err = Some (Errorf_w ''request failed: '' err),
                call_result = result,
                call_limiter = (rateLimiter c)\<lparr>tokens := tokens (rateLimiter c) - 1\<rparr>,
                call_sent = replicate n (verb, path, body)\<rparr>
           | Undecoded resp err \<Rightarrow>
               \<lparr>call_err = Some (Errorf_w ''request failed: '' err),
                call_result = result,
                call_limiter = (rateLimiter c)\<lparr>tokens := tokens (rateLimiter c) - 1\<rparr>,
                call_sent = replicate n (verb, path, body)\<rparr>
           | Responded resp \<Rightarrow>
               \<lparr>call_err = handle_response (decode_errors env n) resp,
                call_result =
                  (case result of
                     None \<Rightarrow> None
                   | Some z \<Rightarrow>
                       if 200 \<le> resp_StatusCode resp \<and> resp_StatusCode resp \<le> 299
                       then (case resp_Result resp of Some v \<Rightarrow> Some v | None \<Rightarrow> Some z)
                       else Some z),
                call_limiter = (rateLimiter c)\<lparr>tokens := tokens (rateLimiter c) - 1\<rparr>,
                call_sent = replicate n (verb, path, body)\<rparr>))"
  by (simp add: makeRequest_def Wait_live)

lemma makeRequest_responded:
  assumes "1 \<le> burst (rateLimiter c)"
      and "method_switch method = Some verb"
      and "Backoff (nat (RetryCount (httpClient c))) 0 env = (Responded resp, n)"
  shows "makeRequest c None method path body result env =
           \<lparr>call_err = handle_response (decode_errors env n) resp,
            call_result =
              (case result of
                 None \<Rightarrow> None
               | Some z \<Rightarrow>
                   if 200 \<le> resp_StatusCode resp \<and> resp_StatusCode resp \<le> 299
                   then (case resp_Result resp of Some v \<Rightarrow> Some v | None \<Rightarrow> Some z)
                   else Some z),
            call_limiter = (rateLimiter c)\<lparr>tokens := tokens (rateLimiter c) - 1\<rparr>,
            call_sent = replicate n (verb, path, body)\<rparr>"
  using assms by (simp add: makeRequest_live)






lemma method_switch_GET: "method_switch ''GET'' = Some ''GET''"
  by code_simp


lemma call_err_failed:
  assumes "1 \<le> burst (rateLimiter c)"
      and "method_switch method = Some verb"
      and "fst (Backoff (nat (RetryCount (httpClient c))) 0 env) = Failed e"
  shows "call_err (makeRequest c None method path body result env) =
           Some (Errorf_w ''request failed: '' e)"
  using assms
  by (cases "Backoff (nat (RetryCount (httpClient c))) 0 env") (simp add: makeRequest_live)


lemma return_call_sent: "ret_sent (return_call r) = call_sent r"
  by (simp add: return_call_def)

lemma makeRequest_sent_body:
  "x \<in> set (call_sent (makeRequest c ctx method path body result env)) \<Longrightarrow> snd (snd x) = body"
  by (cases "Backoff (nat (RetryCount (httpClient c))) 0 env")
     (auto simp add: makeRequest_def split: option.splits prod.splits outcome.splits)

lemma with_req_fields:
  "ret_err (with_req r q) = ret_err r" "ret_result (with_req r q) = ret_result r"
  "ret_sent (with_req r q) = ret_sent r" "ret_limiter (with_req r q) = ret_limiter r"
  "req_after (with_req r q) = q"
  by (simp_all add: with_req_def ret.defs ret_req.defs)

lemma untouched_invalid: "untouched c (return_invalid c (NewValidationError f m v))"
  by (simp add: untouched_def is_ValidationError_def return_invalid_def NewValidationError_def)

lemma untouched_with_req: "untouched c (with_req r q) = untouched c r"
  by (simp add: untouched_def with_req_fields)

section \<open>The dispatcher\<close>

text \<open>
  Claim C1, as amended. For every call of \<open>makeRequest\<close> with a method that, after
  upper-casing, is none of GET, POST, PUT, PATCH, DELETE: when the rate limiter's wait
  succeeds, the call has consumed one token of the rate limiter and fails with the plain
  error \<open>unsupported HTTP method: <method>\<close>, built by \<open>fmt.Errorf\<close>, without putting
  any request on the wire, so nothing is retried; when the wait fails, the call fails
  with \<open>rate limit wait failed\<close> wrapping the context's error, the rate limiter is
  unchanged and nothing is sent. The rate limiter is consulted before the method is
  looked at, and no \<open>ConfigError\<close> is built anywhere in the package.
\<close>

theorem makeRequest_unsupported_method:
  assumes "ToUpper method \<notin> {''GET'', ''POST'', ''PUT'', ''PATCH'', ''DELETE''}"
  shows "(1 \<le> burst (rateLimiter c) \<longrightarrow>
            makeRequest c None method path body result env =
              \<lparr>call_err = Some (ErrorString (''unsupported HTTP method: '' @ method)),
               call_result = result,
               call_limiter = (rateLimiter c)\<lparr>tokens := tokens (rateLimiter c) - 1\<rparr>,
               call_sent = []\<rparr>)
       \<and> (\<forall>e. 1 \<le> burst (rateLimiter c) \<longrightarrow>
            makeRequest c (Some e) method path body result env =
              \<lparr>call_err = Some (WrapError (''rate limit wait failed: '' @ Error e) e),
               call_result = result,
               call_limiter = rateLimiter c,
               call_sent = []\<rparr>)
       \<and> (burst (rateLimiter c) < 1 \<longrightarrow>
            (\<exists>e. call_err (makeRequest c ctx method path body result env)
                    = Some (WrapError (''rate limit wait failed: '' @ Error e) e))
            \<and> call_limiter (makeRequest c ctx method path body result env) = rateLimiter c
            \<and> call_sent (makeRequest c ctx method path body result env) = [])"
proof -
  from assms have "method_switch method = None"
    by (simp add: method_switch_def Let_def)
  then show ?thesis
    by (simp add: makeRequest_def Wait_def Errorf_w_def)
qed

theorem makeRequest_unsupported_method_witness:
  "ToUpper ''trace'' \<notin> {''GET'', ''POST'', ''PUT'', ''PATCH'', ''DELETE''} \<and>
   1 \<le> burst (rateLimiter example_Client) \<and>
   makeRequest example_Client None ''trace'' ''/test'' (None :: unit option) (None :: unit option)
       (always (Failed (ErrorString ''unreachable''))) =
     \<lparr>call_err = Some (ErrorString ''unsupported HTTP method: trace''),
      call_result = None,
      call_limiter = \<lparr>limit = 100, burst = 100, tokens = 99\<rparr>,
      call_sent = []\<rparr>"
proof -
  have h: "ToUpper ''trace'' \<notin> {''GET'', ''POST'', ''PUT'', ''PATCH'', ''DELETE''}"
    by code_simp
  show ?thesis
    using h example_Client_burst
      makeRequest_unsupported_method [OF h, of example_Client "''/test''" "None :: unit option"
        "None :: unit option" "always (Failed (ErrorString ''unreachable''))"]
    by (simp add: example_Client_def NewLimiter_def)
qed

theorem makeRequest_unsupported_method_counterexample:
  "call_err (makeRequest example_Client None ''TRACE'' ''/test'' (None :: unit option)
       (None :: unit option) (always (Failed (ErrorString ''unreachable''))))
     = Some (ErrorString ''unsupported HTTP method: TRACE'')
   \<and> \<not> As_ConfigError (ErrorString ''unsupported HTTP method: TRACE'')
   \<and> tokens (rateLimiter example_Client) = 100
   \<and> tokens (call_limiter (makeRequest example_Client None ''TRACE'' ''/test'' (None :: unit option)
       (None :: unit option) (always (Failed (ErrorString ''unreachable''))))) = 99"
  by (simp add: makeRequest_def Wait_def method_switch_def upper_byte_def example_Client_def NewLimiter_def)




text \<open>
  Claim C3. \<open>APIError.IsRetryable\<close> holds if and only if the status code is in
  [500,599] or is 429, and the dispatcher retries an attempt exactly when its outcome
  is a network failure, a 5xx status or a 429 status, while the attempt index is below
  the retry count. The code departs from this at the status codes from 600 on: its
  retry condition is \<open>StatusCode() >= 500\<close> with no upper bound. Evaluated on the
  default client (3 retries) against a server that always answers 600: the request is
  sent 4 times, and the \<open>APIError\<close> that comes back is neither a server error nor
  retryable by \<open>IsServerError\<close> and \<open>IsRetryable\<close>.
\<close>

theorem retry_at_status_600:
  "RetryCount (httpClient example_Client) = 3
   \<and> retryCondition (Responded (respond 600 [] None :: HealthResponse Response))
   \<and> length (call_sent (makeRequest example_Client None ''GET'' ''/health'' (None :: unit option)
       (Some zero_HealthResponse) (always (Responded (respond 600 [] None))))) = 4
   \<and> call_err (makeRequest example_Client None ''GET'' ''/health'' (None :: unit option)
       (Some zero_HealthResponse) (always (Responded (respond 600 [] None))))
      = Some (APIErrorPtr
          \<lparr>StatusCode = 600, Message = ''API request failed with status 600'',
           Code = [], Details = [], RequestID = [], APIError.Timestamp = []\<rparr>)
   \<and> \<not> IsServerError
          \<lparr>StatusCode = 600, Message = ''API request failed with status 600'',
           Code = [], Details = [], RequestID = [], APIError.Timestamp = []\<rparr>
   \<and> \<not> IsRetryable
          \<lparr>StatusCode = 600, Message = ''API request failed with status 600'',
           Code = [], Details = [], RequestID = [], APIError.Timestamp = []\<rparr>"
proof -
  have n: "RetryCount (httpClient example_Client) = 3"
    by (simp add: example_Client_def configure_http_def Let_def example_Config_def
          set_defaults_def DefaultMaxRetries_def SetHeader_def)
  have c: "retryCondition (Responded (respond 600 [] None :: HealthResponse Response))"
    by (simp add: retryCondition_def respond_def)
  have b: "Backoff (Suc (Suc (Suc 0))) 0 (always (Responded (respond 600 [] None :: HealthResponse Response)))
          = (Responded (respond 600 [] None), 4)"
    by (simp add: always_def retryCondition_def respond_def)
  have d: "decode_errors (always (Responded (respond 600 [] None :: HealthResponse Response))) j
             = zero_APIError" for j
    by (induction j) (simp_all add: always_def respond_def Unmarshal_def)
  have i: "Itoa 600 = ''600''"
    by code_simp
  have k: "header_Get [] ''X-Request-ID'' = []"
    by (simp add: header_Get_def)
  have r: "makeRequest example_Client None ''GET'' ''/health'' (None :: unit option)
       (Some zero_HealthResponse) (always (Responded (respond 600 [] None)))
     = \<lparr>call_err = handle_response zero_APIError (respond 600 [] None :: HealthResponse Response),
        call_result = Some zero_HealthResponse,
        call_limiter = (rateLimiter example_Client)\<lparr>tokens := tokens (rateLimiter example_Client) - 1\<rparr>,
        call_sent = replicate 4 (''GET'', ''/health'', None)\<rparr>"
  proof -
    have b': "Backoff (nat (RetryCount (httpClient example_Client))) 0
                (always (Responded (respond 600 [] None :: HealthResponse Response)))
              = (Responded (respond 600 [] None), 4)"
      by (simp only: example_Client_retries b)
    have q: "resp_StatusCode (respond 600 [] None :: HealthResponse Response) = 600"
      by (simp add: respond_def)
    show ?thesis
      by (simp add: makeRequest_responded [OF example_Client_burst method_switch_GET b'] d q)
  qed
  have h: "handle_response zero_APIError (respond 600 [] None :: HealthResponse Response)
      = Some (APIErrorPtr
          \<lparr>StatusCode = 600, Message = ''API request failed with status 600'',
           Code = [], Details = [], RequestID = [], APIError.Timestamp = []\<rparr>)"
    by (simp add: handle_response_def respond_def zero_APIError_def i k)
  have s: "\<not> IsServerError
          \<lparr>StatusCode = 600, Message = ''API request failed with status 600'',
           Code = [], Details = [], RequestID = [], APIError.Timestamp = []\<rparr>"
    by (simp add: IsServerError_def)
  have t: "\<not> IsRetryable
          \<lparr>StatusCode = 600, Message = ''API request failed with status 600'',
           Code = [], Details = [], RequestID = [], APIError.Timestamp = []\<rparr>"
    by (simp add: IsRetryable_def IsServerError_def IsRateLimitError_def)
  from n c s t show ?thesis
    by (simp add: r h)
qed

text \<open>
  Claim C4, as amended. For every call of \<open>makeRequest\<close> whose send returns an error,
  the call returns the error built by \<open>fmt.Errorf("request failed: %w", err)\<close>: its
  message is \<open>request failed: \<close> followed by the message of the underlying error,
  \<open>Unwrap\<close> gives the underlying error, and it is a \<open>NetworkError\<close> for
  \<open>errors.As\<close> only if the underlying error is one. No \<open>NetworkError\<close> is built
  anywhere in the package.
\<close>

theorem makeRequest_transport_failure:
  assumes w: "1 \<le> burst (rateLimiter c)"
      and m: "ToUpper method \<in> {''GET'', ''POST'', ''PUT'', ''PATCH'', ''DELETE''}"
      and out: "fst (Backoff (nat (RetryCount (httpClient c))) 0 env) = Failed e"
  shows "call_err (makeRequest c None method path body result env)
           = Some (WrapError (''request failed: '' @ Error e) e)
       \<and> Unwrap (WrapError (''request failed: '' @ Error e) e) = Some e
       \<and> (As_NetworkError (WrapError (''request failed: '' @ Error e) e) \<longleftrightarrow> As_NetworkError e)"
proof -
  from m have "method_switch method = Some (ToUpper method)" by (rule method_switch_supported)
  with w out show ?thesis by (simp add: call_err_failed Errorf_w_def)
qed

theorem makeRequest_transport_failure_witness:
  "1 \<le> burst (rateLimiter example_Client)
   \<and> ToUpper ''post'' \<in> {''GET'', ''POST'', ''PUT'', ''PATCH'', ''DELETE''}
   \<and> fst (Backoff (nat (RetryCount (httpClient example_Client))) 0
           (always (Failed (ErrorString ''connection refused'') :: unit outcome)))
       = Failed (ErrorString ''connection refused'')
   \<and> call_err (makeRequest example_Client None ''post'' ''/api/v1/memory'' (None :: unit option) None
         (always (Failed (ErrorString ''connection refused'') :: unit outcome)))
       = Some (WrapError ''request failed: connection refused'' (ErrorString ''connection refused''))"
proof -
  have m: "ToUpper ''post'' \<in> {''GET'', ''POST'', ''PUT'', ''PATCH'', ''DELETE''}"
    by code_simp
  have out: "fst (Backoff (nat (RetryCount (httpClient example_Client))) 0
           (always (Failed (ErrorString ''connection refused'') :: unit outcome)))
       = Failed (ErrorString ''connection refused'')"
    by (simp add: Backoff_last always_def)
  show ?thesis
    using m out example_Client_burst
      makeRequest_transport_failure [OF example_Client_burst m out, of "''/api/v1/memory''"
        "None :: unit option" None]
    by simp
qed

theorem makeRequest_transport_failure_counterexample:
  "call_err (makeRequest example_Client None ''GET'' ''/health'' (None :: unit option)
       (Some zero_HealthResponse) (always (Failed (ErrorString ''connection refused''))))
     = Some (WrapError ''request failed: connection refused'' (ErrorString ''connection refused''))
   \<and> \<not> As_NetworkError
          (WrapError ''request failed: connection refused'' (ErrorString ''connection refused''))"
proof -
  have m: "method_switch ''GET'' = Some ''GET''"
    by code_simp
  have out: "fst (Backoff (nat (RetryCount (httpClient example_Client))) 0
           (always (Failed (ErrorString ''connection refused'') :: HealthResponse outcome)))
       = Failed (ErrorString ''connection refused'')"
    by (simp add: Backoff_last always_def)
  have "call_err (makeRequest example_Client None ''GET'' ''/health'' (None :: unit option)
       (Some zero_HealthResponse) (always (Failed (ErrorString ''connection refused''))))
     = Some (Errorf_w ''request failed: '' (ErrorString ''connection refused''))"
    using example_Client_burst m out by (rule call_err_failed)
  then show ?thesis
    by (simp add: Errorf_w_def)
qed

section \<open>Construction\<close>

text \<open>
  Claim C5, as amended. For a \<open>nil\<close> \<open>Config\<close> and for every \<open>Config\<close> with an empty
  \<open>APIKey\<close>, \<open>NewClient\<close> returns no client and the plain error
  \<open>config cannot be nil\<close> or \<open>API key is required\<close>, built by \<open>fmt.Errorf\<close>, and leaves
  the \<open>Config\<close> as it was. No client exists afterwards, so neither a rate limiter nor
  an HTTP client has been created.
\<close>

theorem NewClient_missing_key:
  "NewClient url_Parse None = (Inl (ErrorString ''config cannot be nil''), None)
   \<and> (APIKey cfg = [] \<longrightarrow>
        NewClient url_Parse (Some cfg) = (Inl (ErrorString ''API key is required''), Some cfg))"
  by (simp add: NewClient_def)

theorem NewClient_missing_key_witness:
  "APIKey (example_Config\<lparr>APIKey := []\<rparr>) = []
   \<and> NewClient example_url_Parse (Some (example_Config\<lparr>APIKey := []\<rparr>))
       = (Inl (ErrorString ''API key is required''), Some (example_Config\<lparr>APIKey := []\<rparr>))"
  using NewClient_missing_key [of example_url_Parse "example_Config\<lparr>APIKey := []\<rparr>"]
  by simp

theorem NewClient_missing_key_counterexample:
  "fst (NewClient example_url_Parse (Some (example_Config\<lparr>APIKey := []\<rparr>)))
     = Inl (ErrorString ''API key is required'')
   \<and> \<not> As_ConfigError (ErrorString ''API key is required'')"
  by (simp add: NewClient_def)

text \<open>
  Claim C10. \<open>NewClient\<close> writes the defaults into the \<open>Config\<close> of its caller: for
  every \<open>Config\<close> with an API key, afterwards an empty \<open>BaseURL\<close> is the default base
  URL, a zero \<open>Timeout\<close> is 30 seconds, a zero \<open>RateLimit\<close> is 100, and every other
  field is as before, whether or not the base URL then parses; a \<open>Config\<close> without an
  API key is left as it was; and the client that is returned holds that same struct.
\<close>

theorem NewClient_defaults:
  "(APIKey cfg \<noteq> [] \<longrightarrow>
      snd (NewClient url_Parse (Some cfg))
        = Some (cfg\<lparr>BaseURL := (if BaseURL cfg = [] then ''https://api.ainative.studio'' else BaseURL cfg),
                    Timeout := (if Timeout cfg = 0 then 30 * 1000000000 else Timeout cfg),
                    RateLimit := (if RateLimit cfg = 0 then 100 else RateLimit cfg)\<rparr>))
   \<and> (APIKey cfg = [] \<longrightarrow> snd (NewClient url_Parse (Some cfg)) = Some cfg)
   \<and> (\<forall>cl. fst (NewClient url_Parse (Some cfg)) = Inr cl \<longrightarrow>
         Some (config cl) = snd (NewClient url_Parse (Some cfg)))"
  by (auto simp add: NewClient_def set_defaults_def Let_def DefaultBaseURL_def DefaultTimeout_def
        DefaultRateLimit_def Second_def split: option.splits)

theorem NewClient_defaults_witness:
  "APIKey example_Config \<noteq> []
   \<and> NewClient example_url_Parse (Some example_Config) =
       (Inr example_Client,
        Some (example_Config\<lparr>BaseURL := ''https://api.ainative.studio'',
                             Timeout := 30000000000, RateLimit := 100\<rparr>))
   \<and> config example_Client
       = example_Config\<lparr>BaseURL := ''https://api.ainative.studio'',
                         Timeout := 30000000000, RateLimit := 100\<rparr>"
proof -
  have k: "APIKey example_Config \<noteq> []"
    by (simp add: example_Config_def)
  have d: "set_defaults example_Config
             = example_Config\<lparr>BaseURL := ''https://api.ainative.studio'',
                         Timeout := 30000000000, RateLimit := 100\<rparr>"
    by (simp add: set_defaults_def example_Config_def Let_def DefaultBaseURL_def
          DefaultTimeout_def DefaultRateLimit_def Second_def)
  have n: "fst (NewClient example_url_Parse (Some example_Config)) = Inr example_Client"
    by (simp add: NewClient_example)
  show ?thesis
    using k d n NewClient_defaults [of example_Config example_url_Parse] NewClient_example
    by (simp add: example_Client_def)
qed

section \<open>Service methods and token helpers\<close>




text \<open>
  Claim C7. A service method whose checks of its arguments fail returns a
  \<open>*ValidationError\<close> and a \<open>nil\<close> result without calling the dispatcher: no request
  is put on the wire and the rate limiter is unchanged. Shown for
  \<open>VectorsService.Upsert\<close> (empty project id, \<open>nil\<close> request, no vectors),
  \<open>VectorsService.Search\<close>, \<open>MemoryService.Search\<close>, \<open>ProjectsService.Get\<close>,
  \<open>AuthService.Login\<close> and \<open>EmbeddingsService.Generate\<close> (no texts, more than 100).
\<close>

theorem validation_before_dispatch:
  "((projectID = [] \<or> reqU = None \<or> (\<exists>r. reqU = Some r \<and> Vectors r = []))
      \<longrightarrow> untouched c (VectorsService_Upsert c ctx projectID reqU envU))
   \<and> ((projectID = [] \<or> reqS = None \<or> (\<exists>r. reqS = Some r \<and> VectorSearchRequest.Vector r = []))
      \<longrightarrow> untouched c (VectorsService_Search c ctx projectID reqS envS))
   \<and> ((reqM = None \<or> (\<exists>r. reqM = Some r \<and> Query r = []))
      \<longrightarrow> untouched c (MemoryService_Search c ctx reqM envM))
   \<and> (projectID = [] \<longrightarrow> untouched c (ProjectsService_Get c ctx projectID envP))
   \<and> ((reqL = None \<or> (\<exists>r. reqL = Some r \<and> (Username r = [] \<or> Password r = [])))
      \<longrightarrow> untouched c (AuthService_Login c ctx reqL envL))
   \<and> ((texts = [] \<or> length texts > 100)
      \<longrightarrow> untouched c (EmbeddingsService_Generate c ctx texts model normalize_arg envG))"
proof -
  have u: "(projectID = [] \<or> reqU = None \<or> (\<exists>r. reqU = Some r \<and> Vectors r = []))
      \<longrightarrow> untouched c (VectorsService_Upsert c ctx projectID reqU envU)"
    by (auto simp add: VectorsService_Upsert_def untouched_invalid)
  have s: "(projectID = [] \<or> reqS = None \<or> (\<exists>r. reqS = Some r \<and> VectorSearchRequest.Vector r = []))
      \<longrightarrow> untouched c (VectorsService_Search c ctx projectID reqS envS)"
    by (auto simp add: VectorsService_Search_def untouched_invalid untouched_with_req)
  have m: "(reqM = None \<or> (\<exists>r. reqM = Some r \<and> Query r = []))
      \<longrightarrow> untouched c (MemoryService_Search c ctx reqM envM)"
    by (auto simp add: MemoryService_Search_def untouched_invalid untouched_with_req)
  have p: "projectID = [] \<longrightarrow> untouched c (ProjectsService_Get c ctx projectID envP)"
    by (simp add: ProjectsService_Get_def untouched_invalid)
  have l: "(reqL = None \<or> (\<exists>r. reqL = Some r \<and> (Username r = [] \<or> Password r = [])))
      \<longrightarrow> untouched c (AuthService_Login c ctx reqL envL)"
    by (auto simp add: AuthService_Login_def untouched_invalid)
  have g: "(texts = [] \<or> length texts > 100)
      \<longrightarrow> untouched c (EmbeddingsService_Generate c ctx texts model normalize_arg envG)"
    by (auto simp add: EmbeddingsService_Generate_def untouched_invalid)
  from u s m p l g show ?thesis by blast
qed

theorem validation_before_dispatch_witness:
  "Vectors example_Upsert = []
   \<and> VectorsService_Upsert example_Client None ''proj-123'' (Some example_Upsert)
        (always (Responded (respond 200 [] None)))
      = \<lparr>ret_result = None,
         ret_err = Some (ValidationErrorPtr ''vectors'' ''vectors cannot be empty'' (VItems [])),
         ret_limiter = rateLimiter example_Client,
         ret_sent = []\<rparr>
   \<and> untouched example_Client
        (VectorsService_Search example_Client None [] (Some example_VectorSearch)
           (always (Responded (respond 200 [] None))))
   \<and> untouched example_Client
        (MemoryService_Search example_Client None None (always (Responded (respond 200 [] None))))
   \<and> untouched example_Client
        (ProjectsService_Get example_Client None [] (always (Responded (respond 200 [] None))))
   \<and> Password example_Login = []
   \<and> untouched example_Client
        (AuthService_Login example_Client None (Some example_Login) (always (Responded (respond 200 [] None))))
   \<and> length (replicate 101 ''text'') > 100
   \<and> untouched example_Client
        (EmbeddingsService_Generate example_Client None (replicate 101 ''text'') [] True
           (always (Responded (respond 200 [] None))))"
proof -
  have v: "Vectors example_Upsert = []"
    by (simp add: example_Upsert_def)
  have p: "Password example_Login = []"
    by (simp add: example_Login_def)
  have u: "''proj-123'' = [] \<or> Some example_Upsert = None
               \<or> (\<exists>r. Some example_Upsert = Some r \<and> Vectors r = [])"
    using v by simp
  have l: "Some example_Login = None
               \<or> (\<exists>r. Some example_Login = Some r \<and> (Username r = [] \<or> Password r = []))"
    using p by simp
  have a: "untouched example_Client
          (VectorsService_Upsert example_Client None ''proj-123'' (Some example_Upsert)
             (always (Responded (respond 200 [] None))))"
    using u validation_before_dispatch [of "''proj-123''" "Some example_Upsert" example_Client None
         "always (Responded (respond 200 [] None))"]
    by blast
  have b: "untouched example_Client
        (VectorsService_Search example_Client None [] (Some example_VectorSearch)
           (always (Responded (respond 200 [] None))))
   \<and> untouched example_Client
        (MemoryService_Search example_Client None None (always (Responded (respond 200 [] None))))
   \<and> untouched example_Client
        (ProjectsService_Get example_Client None [] (always (Responded (respond 200 [] None))))"
    using validation_before_dispatch [of "[]" None example_Client None _ "Some example_VectorSearch"
         "always (Responded (respond 200 [] None))" None
         "always (Responded (respond 200 [] None))"
         "always (Responded (respond 200 [] None))"]
    by blast
  have c: "untouched example_Client
        (AuthService_Login example_Client None (Some example_Login) (always (Responded (respond 200 [] None))))"
    using l validation_before_dispatch [of "[]" None example_Client None _ None _ None _ _
         "Some example_Login" "always (Responded (respond 200 [] None))"]
    by blast
  from a v have e: "VectorsService_Upsert example_Client None ''proj-123'' (Some example_Upsert)
        (always (Responded (respond 200 [] None)))
      = \<lparr>ret_result = None,
         ret_err = Some (ValidationErrorPtr ''vectors'' ''vectors cannot be empty'' (VItems [])),
         ret_limiter = rateLimiter example_Client,
         ret_sent = []\<rparr>"
    by (simp add: VectorsService_Upsert_def return_invalid_def NewValidationError_def)
  have t: "length (replicate 101 ''text'') > 100"
    by simp
  have d: "untouched example_Client
        (EmbeddingsService_Generate example_Client None (replicate 101 ''text'') [] True
           (always (Responded (respond 200 [] None))))"
    using t validation_before_dispatch [of "[]" None example_Client None _ None _ None _ _
         None _ "replicate 101 ''text''" "[]" True "always (Responded (respond 200 [] None))"]
    by blast
  from this v p b c t e show ?thesis by (intro conjI) simp_all
qed

text \<open>
  Claim C9. The search methods write their defaults into the request struct of the
  caller before they dispatch: \<open>MemoryService.Search\<close> sets a \<open>Limit\<close> of 0 to 10,
  \<open>VectorsService.Search\<close> sets a \<open>TopK\<close> of 0 or less to 5, for every request that
  passes the checks of the method; every request put on the wire carries the struct
  with the default in place; no other field is changed, and a request that fails the
  checks is not changed at all.
\<close>

theorem search_defaults:
  "(\<forall>r. reqM = Some r \<longrightarrow> Query r \<noteq> [] \<longrightarrow>
        req_after (MemoryService_Search c ctx reqM envM)
          = Some (r\<lparr>Limit := (if Limit r = 0 then 10 else Limit r)\<rparr>))
   \<and> (\<forall>x \<in> set (ret_sent (MemoryService_Search c ctx reqM envM)).
        snd (snd x) = req_after (MemoryService_Search c ctx reqM envM))
   \<and> ((reqM = None \<or> (\<exists>r. reqM = Some r \<and> Query r = [])) \<longrightarrow>
        req_after (MemoryService_Search c ctx reqM envM) = reqM)
   \<and> (\<forall>r. projectID \<noteq> [] \<longrightarrow> reqS = Some r \<longrightarrow> VectorSearchRequest.Vector r \<noteq> [] \<longrightarrow>
        req_after (VectorsService_Search c ctx projectID reqS envS)
          = Some (r\<lparr>TopK := (if TopK r \<le> 0 then 5 else TopK r)\<rparr>))
   \<and> (\<forall>x \<in> set (ret_sent (VectorsService_Search c ctx projectID reqS envS)).
        snd (snd x) = req_after (VectorsService_Search c ctx projectID reqS envS))
   \<and> ((projectID = [] \<or> reqS = None \<or> (\<exists>r. reqS = Some r \<and> VectorSearchRequest.Vector r = [])) \<longrightarrow>
        req_after (VectorsService_Search c ctx projectID reqS envS) = reqS)"
proof -
  have m1: "\<forall>r. reqM = Some r \<longrightarrow> Query r \<noteq> [] \<longrightarrow>
        req_after (MemoryService_Search c ctx reqM envM)
          = Some (r\<lparr>Limit := (if Limit r = 0 then 10 else Limit r)\<rparr>)"
    by (simp add: MemoryService_Search_def Let_def with_req_fields)
  have m2: "\<forall>x \<in> set (ret_sent (MemoryService_Search c ctx reqM envM)).
        snd (snd x) = req_after (MemoryService_Search c ctx reqM envM)"
    by (auto simp add: MemoryService_Search_def Let_def with_req_fields return_call_sent
          return_invalid_def dest: makeRequest_sent_body split: option.splits)
  have m3: "(reqM = None \<or> (\<exists>r. reqM = Some r \<and> Query r = [])) \<longrightarrow>
        req_after (MemoryService_Search c ctx reqM envM) = reqM"
    by (auto simp add: MemoryService_Search_def with_req_fields)
  have s1: "\<forall>r. projectID \<noteq> [] \<longrightarrow> reqS = Some r \<longrightarrow> VectorSearchRequest.Vector r \<noteq> [] \<longrightarrow>
        req_after (VectorsService_Search c ctx projectID reqS envS)
          = Some (r\<lparr>TopK := (if TopK r \<le> 0 then 5 else TopK r)\<rparr>)"
    by (simp add: VectorsService_Search_def Let_def with_req_fields)
  have s2: "\<forall>x \<in> set (ret_sent (VectorsService_Search c ctx projectID reqS envS)).
        snd (snd x) = req_after (VectorsService_Search c ctx projectID reqS envS)"
    by (auto simp add: VectorsService_Search_def Let_def with_req_fields return_call_sent
          return_invalid_def dest: makeRequest_sent_body split: option.splits)
  have s3: "(projectID = [] \<or> reqS = None \<or> (\<exists>r. reqS = Some r \<and> VectorSearchRequest.Vector r = [])) \<longrightarrow>
        req_after (VectorsService_Search c ctx projectID reqS envS) = reqS"
    by (auto simp add: VectorsService_Search_def with_req_fields)
  from m1 m2 m3 s1 s2 s3 show ?thesis by blast
qed

theorem search_defaults_witness:
  "Query example_MemorySearch \<noteq> []
   \<and> req_after (MemoryService_Search example_Client None (Some example_MemorySearch)
        (always (Responded (respond 200 [] None))))
       = Some (example_MemorySearch\<lparr>Limit := 10\<rparr>)
   \<and> ret_sent (MemoryService_Search example_Client None (Some example_MemorySearch)
        (always (Responded (respond 200 [] None))))
       = [(''POST'', ''/api/v1/memory/search'', Some (example_MemorySearch\<lparr>Limit := 10\<rparr>))]
   \<and> VectorSearchRequest.Vector example_VectorSearch \<noteq> []
   \<and> req_after (VectorsService_Search example_Client None ''p1'' (Some example_VectorSearch)
        (always (Responded (respond 200 [] None))))
       = Some (example_VectorSearch\<lparr>TopK := 5\<rparr>)
   \<and> ret_sent (VectorsService_Search example_Client None ''p1'' (Some example_VectorSearch)
        (always (Responded (respond 200 [] None))))
       = [(''POST'', ''/api/v1/zerodb/projects/p1/vectors/search'',
           Some (example_VectorSearch\<lparr>TopK := 5\<rparr>))]"
proof -
  have q: "Query example_MemorySearch \<noteq> []" and l: "Limit example_MemorySearch = 0"
    by (simp_all add: example_MemorySearch_def)
  have v: "VectorSearchRequest.Vector example_VectorSearch \<noteq> []" and k: "TopK example_VectorSearch \<le> 0"
    by (simp_all add: example_VectorSearch_def)
  have m: "method_switch ''POST'' = Some ''POST''"
    by code_simp
  have b: "\<not> retryCondition (always (Responded (respond 200 [] None)) i)" for i
    by (simp add: always_def retryCondition_def respond_def)
  have sm: "ret_sent (MemoryService_Search example_Client None (Some example_MemorySearch)
        (always (Responded (respond 200 [] None))))
       = [(''POST'', ''/api/v1/memory/search'', Some (example_MemorySearch\<lparr>Limit := 10\<rparr>))]"
    using q l m
    by (simp add: MemoryService_Search_def with_req_fields return_call_sent
          makeRequest_live [OF example_Client_burst]
          Backoff_first [OF b] always_def Let_def)
  have sv: "ret_sent (VectorsService_Search example_Client None ''p1'' (Some example_VectorSearch)
        (always (Responded (respond 200 [] None))))
       = [(''POST'', ''/api/v1/zerodb/projects/p1/vectors/search'',
           Some (example_VectorSearch\<lparr>TopK := 5\<rparr>))]"
    using v k m
    by (simp add: VectorsService_Search_def with_req_fields return_call_sent
          makeRequest_live [OF example_Client_burst]
          Backoff_first [OF b] always_def Let_def)
  note t = search_defaults [of "Some example_MemorySearch" example_Client None
        "always (Responded (respond 200 [] None))" "''p1''" "Some example_VectorSearch"
        "always (Responded (respond 200 [] None))"]
  have n: "''p1'' \<noteq> []"
    by simp
  from t have "\<forall>r. Some example_MemorySearch = Some r \<longrightarrow> Query r \<noteq> [] \<longrightarrow>
        req_after (MemoryService_Search example_Client None (Some example_MemorySearch)
            (always (Responded (respond 200 [] None))))
          = Some (r\<lparr>Limit := (if Limit r = 0 then 10 else Limit r)\<rparr>)"
    by (rule conjunct1)
  with q l have rm: "req_after (MemoryService_Search example_Client None (Some example_MemorySearch)
        (always (Responded (respond 200 [] None))))
       = Some (example_MemorySearch\<lparr>Limit := 10\<rparr>)"
    by simp
  from t have "\<forall>r. ''p1'' \<noteq> [] \<longrightarrow> Some example_VectorSearch = Some r \<longrightarrow>
        VectorSearchRequest.Vector r \<noteq> [] \<longrightarrow>
        req_after (VectorsService_Search example_Client None ''p1'' (Some example_VectorSearch)
            (always (Responded (respond 200 [] None))))
          = Some (r\<lparr>TopK := (if TopK r \<le> 0 then 5 else TopK r)\<rparr>)"
    by (elim conjE)
  with n v k have rv: "req_after (VectorsService_Search example_Client None ''p1''
        (Some example_VectorSearch) (always (Responded (respond 200 [] None))))
       = Some (example_VectorSearch\<lparr>TopK := 5\<rparr>)"
    by simp
  from q v rm rv sm sv show ?thesis
    by (intro conjI)
qed

text \<open>
  Claim C8. For every token string: if it parses and has no expiry claim,
  \<open>IsTokenExpired\<close> returns false and no error; if it parses and its expiry claim is
  before the current instant, \<open>IsTokenExpired\<close> returns true and no error; if it does
  not parse, \<open>IsTokenExpired\<close> and \<open>GetTokenExpirationTime\<close> both return the error
  of \<open>ParseToken\<close>.
\<close>

theorem token_expiry:
  "(\<forall>claims. ParseToken ParseUnverified tokenString = Inr claims
        \<longrightarrow> RegisteredClaims.ExpiresAt claims = None
        \<longrightarrow> IsTokenExpired ParseUnverified now tokenString = (False, None))
   \<and> (\<forall>claims t. ParseToken ParseUnverified tokenString = Inr claims
        \<longrightarrow> RegisteredClaims.ExpiresAt claims = Some t \<longrightarrow> t < now
        \<longrightarrow> IsTokenExpired ParseUnverified now tokenString = (True, None))
   \<and> (\<forall>err. ParseToken ParseUnverified tokenString = Inl err
        \<longrightarrow> snd (IsTokenExpired ParseUnverified now tokenString) = Some err
          \<and> GetTokenExpirationTime ParseUnverified tokenString = (None, Some err))"
  by (simp add: IsTokenExpired_def GetTokenExpirationTime_def)

theorem token_expiry_witness:
  "ParseToken example_ParseUnverified ''h.noexp.s'' = Inr (example_claims None)
   \<and> IsTokenExpired example_ParseUnverified 2000 ''h.noexp.s'' = (False, None)
   \<and> ParseToken example_ParseUnverified ''h.exp1000.s'' = Inr (example_claims (Some 1000))
   \<and> IsTokenExpired example_ParseUnverified 2000 ''h.exp1000.s'' = (True, None)
   \<and> ParseToken example_ParseUnverified ''invalid_token''
        = Inl (WrapError ''failed to parse token: token is malformed''
                 (ErrorString ''token is malformed''))
   \<and> snd (IsTokenExpired example_ParseUnverified 2000 ''invalid_token'')
        = Some (WrapError ''failed to parse token: token is malformed''
                 (ErrorString ''token is malformed''))
   \<and> GetTokenExpirationTime example_ParseUnverified ''invalid_token''
        = (None, Some (WrapError ''failed to parse token: token is malformed''
                 (ErrorString ''token is malformed'')))"
proof -
  have a: "ParseToken example_ParseUnverified ''h.noexp.s'' = Inr (example_claims None)"
    by (simp add: ParseToken_def example_ParseUnverified_def)
  have b: "ParseToken example_ParseUnverified ''h.exp1000.s'' = Inr (example_claims (Some 1000))"
    by (simp add: ParseToken_def example_ParseUnverified_def)
  have c: "ParseToken example_ParseUnverified ''invalid_token''
        = Inl (WrapError ''failed to parse token: token is malformed''
                 (ErrorString ''token is malformed''))"
    by (simp add: ParseToken_def example_ParseUnverified_def Errorf_w_def)
  have ea: "RegisteredClaims.ExpiresAt (example_claims None) = None"
    by (simp add: example_claims_def)
  have eb: "RegisteredClaims.ExpiresAt (example_claims (Some 1000)) = Some 1000"
    by (simp add: example_claims_def)
  show ?thesis
    using a b c ea eb
      token_expiry [of example_ParseUnverified "''h.noexp.s''" 2000]
      token_expiry [of example_ParseUnverified "''h.exp1000.s''" 2000]
      token_expiry [of example_ParseUnverified "''invalid_token''" 2000]
    by simp
qed

end
